theory Spec2Isabelle
  imports Main
begin

section \<open>Python values, exceptions and strings\<close>

text \<open>
  A shallow embedding of the RAG core of the repository (the modules under
  \<^verbatim>\<open>src/\<close>: \<^verbatim>\<open>utils.py\<close>, \<^verbatim>\<open>rag_chain.py\<close>, \<^verbatim>\<open>vectorstore.py\<close>,
  \<^verbatim>\<open>document_processor.py\<close>, \<^verbatim>\<open>s3_loader.py\<close>, \<^verbatim>\<open>embeddings.py\<close> and
  \<^verbatim>\<open>rag_system.py\<close>). Every \<^verbatim>\<open>raise\<close> is a value \<open>Inl e\<close> of a sum type,
  every mutated attribute is a field of a state that the function returns updated, and
  every call into an external library (Chroma, HuggingFace, Ollama, PyPDF, boto3) is a
  field of the record \<open>env\<close>, so that the theorems hold for whatever those libraries do
  unless a hypothesis says otherwise. Logging is not modelled.
\<close>

datatype py_value = PyNone | PyInt int | PyStr string

text \<open>
  The exception classes that the code raises or lets through. \<open>ClientError\<close> carries
  \<^verbatim>\<open>e.response['Error']['Code']\<close>; \<open>RetryError\<close> is tenacity's wrapper of the last
  attempt's exception; \<open>LibraryError\<close> stands for any other exception of a library.
\<close>

datatype exn =
    FileNotFoundError string
  | NotADirectoryError string
  | PermissionError string
  | ValueError string
  | AttributeError string
  | FileExistsError string
  | ClientError string
  | RetryError exn
  | LibraryError string

text \<open>
  Characters for which \<^verbatim>\<open>str.isspace\<close> holds among the code points below 256:
  tab to carriage return, the four separators 0x1C to 0x1F, space, NEL and the no-break
  space. \<^verbatim>\<open>str.strip()\<close> removes them from both ends.
\<close>

definition whitespace :: "char list" where
  "whitespace =
     [CHR 0x09, CHR 0x0A, CHR 0x0B, CHR 0x0C, CHR 0x0D, CHR 0x1C, CHR 0x1D, CHR 0x1E,
      CHR 0x1F, CHR 0x20, CHR 0x85, CHR 0xA0]"

definition isspace :: "char \<Rightarrow> bool" where
  "isspace c = (c \<in> set whitespace)"

definition strip :: "string \<Rightarrow> string" where
  "strip s = rev (dropWhile isspace (rev (dropWhile isspace s)))"

text \<open>
  \<^verbatim>\<open>str.lower\<close> on the letters A to Z. The code uses it only to test for the suffix
  \<^verbatim>\<open>.pdf\<close>, and no other character lowers to one of \<^verbatim>\<open>.\<close>, \<^verbatim>\<open>p\<close>, \<^verbatim>\<open>d\<close>,
  \<^verbatim>\<open>f\<close>.
\<close>

definition lower_char :: "char \<Rightarrow> char" where
  "lower_char c =
     (case map_of (zip ''ABCDEFGHIJKLMNOPQRSTUVWXYZ'' ''abcdefghijklmnopqrstuvwxyz'') c of
        Some d \<Rightarrow> d
      | None \<Rightarrow> c)"

definition lower :: "string \<Rightarrow> string" where
  "lower s = map lower_char s"

definition endswith :: "string \<Rightarrow> string \<Rightarrow> bool" where
  "endswith s suffix = (length suffix \<le> length s \<and> drop (length s - length suffix) s = suffix)"

definition is_pdf_name :: "string \<Rightarrow> bool" where
  "is_pdf_name f = endswith (lower f) ''.pdf''"

section \<open>Configuration and the values of the external libraries\<close>

text \<open>\<^verbatim>\<open>config.py\<close>: the fields of \<^verbatim>\<open>RAGConfig\<close> that the core reads.\<close>

record RAGConfig =
  EMBEDDING_MODEL :: string
  LLM_MODEL :: string
  CONTEXT_WINDOW :: int
  CHUNK_SIZE :: int
  CHUNK_OVERLAP :: int
  VECTOR_STORE_DIR :: string
  DATA_DIR :: string
  S3_BUCKET_NAME :: string
  AWS_REGION :: string

text \<open>A langchain \<^verbatim>\<open>Document\<close> with the two metadata keys the code writes.\<close>

record document =
  page_content :: string
  source :: string
  page :: nat

datatype embeddings = HuggingFaceEmbeddings string

datatype llm = ChatOllama string int

text \<open>
  A Chroma handle: its persist directory, its embedding function and the documents of
  the collection it was opened on.
\<close>

datatype vstore = Chroma string embeddings "document list"

text \<open>
  The runnable built by \<^verbatim>\<open>build_chain\<close>: retriever (store and \<open>k\<close>), prompt
  template, language model; the output parser has no parameter.
\<close>

datatype chain = Chain vstore nat string llm

text \<open>
  What is at a path of the file system: nothing, something that is not a directory, or
  a directory with its content.
\<close>

datatype 'a path_state = Absent | NotADirectory | Directory 'a

datatype entry_kind = RegularFile | SubDirectory

type_synonym folder = "(string \<times> entry_kind) list path_state"

text \<open>
  The persistence directory holds the documents of the persisted collection; an empty
  directory holds none.
\<close>

type_synonym collection = "document list path_state"

datatype s3_outcome = S3Ok | S3ClientError string | S3OtherError string

text \<open>
  The external capabilities. The Chroma operations read and write the persistence
  directory, so they take its state and return the new one. The chain's retriever
  searches the store on disk at every call, so \<open>chain_invoke\<close> takes the state that
  the persistence directory has at the time of the call. The S3 operations answer by
  bucket, key and the number of the attempt within one \<^verbatim>\<open>download_pdf\<close> call, so that
  a fault can be transient.
\<close>

record env =
  hugging_face_embeddings :: "string \<Rightarrow> exn + embeddings"
  chat_ollama :: "string \<Rightarrow> int \<Rightarrow> exn + llm"
  chain_invoke :: "chain \<Rightarrow> string \<Rightarrow> collection \<Rightarrow> exn + string"
  pdf_loader :: "string \<Rightarrow> exn + document list"
  split_documents :: "int \<Rightarrow> int \<Rightarrow> document list \<Rightarrow> exn + document list"
  chroma_open :: "string \<Rightarrow> embeddings \<Rightarrow> collection \<Rightarrow> (exn + vstore) \<times> collection"
  chroma_from_documents ::
    "document list \<Rightarrow> embeddings \<Rightarrow> string \<Rightarrow> collection \<Rightarrow> (exn + vstore) \<times> collection"
  chroma_persist :: "vstore \<Rightarrow> collection \<Rightarrow> (exn + unit) \<times> collection"
  s3_head_object :: "string \<Rightarrow> string \<Rightarrow> nat \<Rightarrow> s3_outcome"
  s3_download_file :: "string \<Rightarrow> string \<Rightarrow> nat \<Rightarrow> s3_outcome"

section \<open>\<^verbatim>\<open>utils.py\<close> and \<^verbatim>\<open>rag_chain.py\<close>\<close>

definition validate_question :: "py_value \<Rightarrow> bool" where
  "validate_question question =
     (case question of
        PyStr s \<Rightarrow> if length (strip s) < 3 then False else True
      | _ \<Rightarrow> False)"

record rag_chain_obj =
  rc_vector_store :: vstore
  rc_chain :: "chain option"

definition RAGChain :: "vstore \<Rightarrow> rag_chain_obj" where
  "RAGChain vector_store = \<lparr>rc_vector_store = vector_store, rc_chain = None\<rparr>"

definition newline :: string where
  "newline = [CHR 0x0A]"

definition template :: string where
  "template =
     ''You are a helpful assistant. First, try to answer using only the context below. '' @ newline @
     ''If the context does not contain sufficient information to answer the question, '' @ newline @
     ''indicate this clearly and then use your general knowledge to provide a helpful response.'' @ newline @
     newline @
     ''Context:'' @ newline @
     ''{context}'' @ newline @
     newline @
     ''Question: {question}'' @ newline @
     newline @
     ''Answer:'' @ newline"

definition build_chain :: "env \<Rightarrow> RAGConfig \<Rightarrow> rag_chain_obj \<Rightarrow> (exn + chain) \<times> rag_chain_obj" where
  "build_chain E cfg rc =
     (case chat_ollama E (LLM_MODEL cfg) (CONTEXT_WINDOW cfg) of
        Inl e \<Rightarrow> (Inl e, rc)
      | Inr l \<Rightarrow>
          (let c = Chain (rc_vector_store rc) 3 template l
           in (Inr c, rc\<lparr>rc_chain := Some c\<rparr>)))"

definition question_error :: exn where
  "question_error = ValueError ''Question must be a non-empty string with at least 3 characters.''"

text \<open>
  Lines 59 to 70 of \<^verbatim>\<open>rag_chain.py\<close>, what \<^verbatim>\<open>query\<close> does with a question that
  passed the check: build the chain when the field is unset, then invoke the chain that
  the field holds. \<open>live\<close> is the state of the persistence directory when the
  question is put.
\<close>

definition invoke_chain ::
  "env \<Rightarrow> collection \<Rightarrow> string \<Rightarrow> rag_chain_obj \<Rightarrow> (exn + string) \<times> rag_chain_obj" where
  "invoke_chain E live s rc =
     (case rc_chain rc of
        None \<Rightarrow> (Inl (AttributeError ''invoke''), rc)
      | Some c \<Rightarrow> (chain_invoke E c s live, rc))"

definition invoke_question ::
  "env \<Rightarrow> RAGConfig \<Rightarrow> collection \<Rightarrow> string \<Rightarrow> rag_chain_obj \<Rightarrow> (exn + string) \<times> rag_chain_obj" where
  "invoke_question E cfg live s rc =
     (case rc_chain rc of
        None \<Rightarrow>
          (case build_chain E cfg rc of
             (Inl e, rc1) \<Rightarrow> (Inl e, rc1)
           | (Inr c, rc1) \<Rightarrow> invoke_chain E live s rc1)
      | Some c \<Rightarrow> invoke_chain E live s rc)"

definition query ::
  "env \<Rightarrow> RAGConfig \<Rightarrow> collection \<Rightarrow> py_value \<Rightarrow> rag_chain_obj \<Rightarrow> (exn + string) \<times> rag_chain_obj" where
  "query E cfg live question rc =
     (case question of
        PyStr s \<Rightarrow>
          if length (strip s) < 3 then (Inl question_error, rc)
          else invoke_question E cfg live s rc
      | _ \<Rightarrow> (Inl question_error, rc))"

section \<open>The file system and the mutable state\<close>

definition os_path_exists :: "'a path_state \<Rightarrow> bool" where
  "os_path_exists p = (p \<noteq> Absent)"

definition os_listdir :: "string \<Rightarrow> folder \<Rightarrow> exn + string list" where
  "os_listdir path p =
     (case p of
        Absent \<Rightarrow> Inl (FileNotFoundError path)
      | NotADirectory \<Rightarrow> Inl (NotADirectoryError path)
      | Directory entries \<Rightarrow> Inr (map fst entries))"

text \<open>\<^verbatim>\<open>os.path.isfile(os.path.join(d, f))\<close> for the directory \<open>d\<close> in state \<open>p\<close>.\<close>

definition os_path_isfile :: "folder \<Rightarrow> string \<Rightarrow> bool" where
  "os_path_isfile p f =
     (case p of
        Directory entries \<Rightarrow> map_of entries f = Some RegularFile
      | _ \<Rightarrow> False)"

definition shutil_rmtree :: "string \<Rightarrow> 'a path_state \<Rightarrow> exn + 'a path_state" where
  "shutil_rmtree path p =
     (case p of
        Absent \<Rightarrow> Inl (FileNotFoundError path)
      | NotADirectory \<Rightarrow> Inl (NotADirectoryError path)
      | Directory _ \<Rightarrow> Inr Absent)"

text \<open>\<^verbatim>\<open>os.makedirs(path, exist_ok=True)\<close>; \<open>fresh\<close> is the content of a new directory.\<close>

definition os_makedirs :: "string \<Rightarrow> 'a \<Rightarrow> 'a path_state \<Rightarrow> exn + 'a path_state" where
  "os_makedirs path fresh p =
     (case p of
        Absent \<Rightarrow> Inr (Directory fresh)
      | NotADirectory \<Rightarrow> Inl (FileExistsError path)
      | Directory c \<Rightarrow> Inr (Directory c))"

definition os_path_join :: "string \<Rightarrow> string \<Rightarrow> string" where
  "os_path_join a b =
     (if b \<noteq> [] \<and> hd b = CHR ''/'' then b
      else if a = [] \<or> last a = CHR ''/'' then a @ b
      else a @ ''/'' @ b)"

definition os_path_basename :: "string \<Rightarrow> string" where
  "os_path_basename p = rev (takeWhile (\<lambda>c. c \<noteq> CHR ''/'') (rev p))"

definition os_path_dirname :: "string \<Rightarrow> string" where
  "os_path_dirname p =
     (let head = rev (dropWhile (\<lambda>c. c \<noteq> CHR ''/'') (rev p))
      in if head \<noteq> [] \<and> \<not> list_all (\<lambda>c. c = CHR ''/'') head
         then rev (dropWhile (\<lambda>c. c = CHR ''/'') (rev head))
         else head)"

text \<open>
  The attributes that the methods assign and the two directories they touch:
  \<open>folders\<close> gives the state of each document directory by path, \<open>persisted\<close> the
  state of the persistence directory. \<open>attempts\<close> counts the calls made by the retry
  wrapper and \<open>slept\<close> lists its waits in seconds, to make them observable.
\<close>

record world =
  folders :: "string \<Rightarrow> folder"
  persisted :: collection
  em_embeddings :: "embeddings option"
  vsm_vector_store :: "vstore option"
  rag_chain :: "rag_chain_obj option"
  attempts :: nat
  slept :: "nat list"

section \<open>\<^verbatim>\<open>embeddings.py\<close> and \<^verbatim>\<open>vectorstore.py\<close>\<close>

definition initialize_embeddings :: "env \<Rightarrow> RAGConfig \<Rightarrow> world \<Rightarrow> (exn + embeddings) \<times> world" where
  "initialize_embeddings E cfg w =
     (case hugging_face_embeddings E (EMBEDDING_MODEL cfg) of
        Inl e \<Rightarrow> (Inl e, w)
      | Inr m \<Rightarrow> (Inr m, w\<lparr>em_embeddings := Some m\<rparr>))"

definition create_vector_store ::
  "env \<Rightarrow> RAGConfig \<Rightarrow> document list \<Rightarrow> embeddings \<Rightarrow> world \<Rightarrow> (exn + vstore) \<times> world" where
  "create_vector_store E cfg chunks embeddings_model w =
     (case chroma_from_documents E chunks embeddings_model (VECTOR_STORE_DIR cfg) (persisted w) of
        (Inl e, p1) \<Rightarrow> (Inl e, w\<lparr>persisted := p1\<rparr>)
      | (Inr vs, p1) \<Rightarrow>
          (case chroma_persist E vs p1 of
             (Inl e, p2) \<Rightarrow> (Inl e, w\<lparr>persisted := p2, vsm_vector_store := Some vs\<rparr>)
           | (Inr _, p2) \<Rightarrow> (Inr vs, w\<lparr>persisted := p2, vsm_vector_store := Some vs\<rparr>)))"

definition load_vector_store :: "env \<Rightarrow> RAGConfig \<Rightarrow> embeddings \<Rightarrow> world \<Rightarrow> (exn + vstore) \<times> world" where
  "load_vector_store E cfg embeddings_model w =
     (case chroma_open E (VECTOR_STORE_DIR cfg) embeddings_model (persisted w) of
        (Inl e, p1) \<Rightarrow> (Inl e, w\<lparr>persisted := p1\<rparr>)
      | (Inr vs, p1) \<Rightarrow> (Inr vs, w\<lparr>persisted := p1, vsm_vector_store := Some vs\<rparr>))"

definition clear_vector_store :: "RAGConfig \<Rightarrow> world \<Rightarrow> (exn + unit) \<times> world" where
  "clear_vector_store cfg w =
     (if os_path_exists (persisted w) then
        (case shutil_rmtree (VECTOR_STORE_DIR cfg) (persisted w) of
           Inl e \<Rightarrow> (Inl e, w)
         | Inr p1 \<Rightarrow>
             (case os_makedirs (VECTOR_STORE_DIR cfg) [] p1 of
                Inl e \<Rightarrow> (Inl e, w\<lparr>persisted := p1\<rparr>)
              | Inr p2 \<Rightarrow> (Inr (), w\<lparr>persisted := p2\<rparr>)))
      else (Inr (), w))"

section \<open>\<^verbatim>\<open>document_processor.py\<close>\<close>

definition load_and_split_pdf :: "env \<Rightarrow> RAGConfig \<Rightarrow> string \<Rightarrow> exn + document list" where
  "load_and_split_pdf E cfg pdf_path =
     (case pdf_loader E pdf_path of
        Inl e \<Rightarrow> Inl e
      | Inr docs \<Rightarrow>
          split_documents E (CHUNK_SIZE cfg) (CHUNK_OVERLAP cfg)
            (map (\<lambda>(i, doc). doc\<lparr>source := os_path_basename pdf_path, page := i + 1\<rparr>)
               (enumerate 0 docs)))"

text \<open>
  The \<^verbatim>\<open>for filename in pdf_files\<close> loop: \<open>all_chunks\<close> is the accumulator that
  \<^verbatim>\<open>extend\<close> grows, and a file whose processing raises is passed over.
\<close>

fun split_each :: "env \<Rightarrow> RAGConfig \<Rightarrow> string \<Rightarrow> string list \<Rightarrow> document list \<Rightarrow> document list" where
  "split_each E cfg data_folder [] all_chunks = all_chunks"
| "split_each E cfg data_folder (filename # pdf_files) all_chunks =
     (case load_and_split_pdf E cfg (os_path_join data_folder filename) of
        Inl e \<Rightarrow> split_each E cfg data_folder pdf_files all_chunks
      | Inr chunks \<Rightarrow> split_each E cfg data_folder pdf_files (all_chunks @ chunks))"

definition load_and_split_all_pdfs ::
  "env \<Rightarrow> RAGConfig \<Rightarrow> string option \<Rightarrow> world \<Rightarrow> exn + document list" where
  "load_and_split_all_pdfs E cfg data_folder_arg w =
     (let data_folder = (case data_folder_arg of None \<Rightarrow> DATA_DIR cfg | Some d \<Rightarrow> d)
      in if \<not> os_path_exists (folders w data_folder) then Inr []
         else (case os_listdir data_folder (folders w data_folder) of
                 Inl e \<Rightarrow> Inl e
               | Inr names \<Rightarrow>
                   (let pdf_files = filter is_pdf_name names
                    in if pdf_files = [] then Inr []
                       else Inr (split_each E cfg data_folder pdf_files []))))"

section \<open>\<^verbatim>\<open>s3_loader.py\<close>\<close>

text \<open>
  \<^verbatim>\<open>download_file\<close> writing the file \<open>local_file\<close>, where \<open>p\<close> is the state of
  the directory that the file goes into: that directory has to exist, a file of that
  name is overwritten, and a path that ends in \<^verbatim>\<open>/\<close> or names a directory cannot be
  written.
\<close>

definition put_file :: "string \<Rightarrow> folder \<Rightarrow> exn + folder" where
  "put_file local_file p =
     (case p of
        Absent \<Rightarrow> Inl (FileNotFoundError local_file)
      | NotADirectory \<Rightarrow> Inl (NotADirectoryError local_file)
      | Directory entries \<Rightarrow>
          (let name = os_path_basename local_file
           in if name = [] then Inl (LibraryError ''IsADirectoryError'')
              else (case map_of entries name of
                      None \<Rightarrow> Inr (Directory (entries @ [(name, RegularFile)]))
                    | Some RegularFile \<Rightarrow> Inr (Directory entries)
                    | Some SubDirectory \<Rightarrow> Inl (LibraryError ''IsADirectoryError''))))"

text \<open>
  The directory that \<^verbatim>\<open>download_pdf\<close> writes into. A key without \<^verbatim>\<open>/\<close> lands in
  the data directory itself. A key with \<^verbatim>\<open>/\<close> lands in the directory of the joined
  path, below the data directory or, for a key that starts with \<^verbatim>\<open>/\<close>, outside it:
  the listing of the data directory does not show it.
\<close>

definition download_target :: "RAGConfig \<Rightarrow> string \<Rightarrow> string" where
  "download_target cfg filename =
     (if CHR ''/'' \<in> set filename then os_path_dirname (os_path_join (DATA_DIR cfg) filename)
      else DATA_DIR cfg)"

text \<open>The \<^verbatim>\<open>except ClientError\<close> handler of \<^verbatim>\<open>download_pdf\<close> (lines 84 to 94).\<close>

definition client_error_handler :: "RAGConfig \<Rightarrow> string \<Rightarrow> string \<Rightarrow> exn" where
  "client_error_handler cfg filename error_code =
     (if error_code = ''NoSuchKey'' then
        FileNotFoundError (''File '' @ filename @ '' not found in bucket '' @ S3_BUCKET_NAME cfg)
      else if error_code = ''NoSuchBucket'' then
        FileNotFoundError (''Bucket '' @ S3_BUCKET_NAME cfg @ '' not found'')
      else if error_code = ''403'' then
        PermissionError (''Access denied to file '' @ filename @ '' in bucket '' @ S3_BUCKET_NAME cfg)
      else ClientError error_code)"

text \<open>
  The body of \<^verbatim>\<open>download_pdf\<close>, one attempt: \<open>n\<close> is the number of the attempt,
  which only the answers of S3 depend on. The \<^verbatim>\<open>FileNotFoundError\<close> raised for a
  404 of \<^verbatim>\<open>head_object\<close> is no \<^verbatim>\<open>ClientError\<close>, so it passes the first handler
  and is raised again by the second.
\<close>

definition download_pdf_body :: "env \<Rightarrow> RAGConfig \<Rightarrow> string \<Rightarrow> nat \<Rightarrow> world \<Rightarrow> (exn + string) \<times> world" where
  "download_pdf_body E cfg filename n w =
     (let local_file = os_path_join (DATA_DIR cfg) filename
      in case s3_head_object E (S3_BUCKET_NAME cfg) filename n of
           S3ClientError code \<Rightarrow>
             if code = ''404'' then
               (Inl (FileNotFoundError
                  (''File '' @ filename @ '' not found in S3 bucket '' @ S3_BUCKET_NAME cfg)), w)
             else (Inl (client_error_handler cfg filename code), w)
         | S3OtherError m \<Rightarrow> (Inl (LibraryError m), w)
         | S3Ok \<Rightarrow>
             (case s3_download_file E (S3_BUCKET_NAME cfg) filename n of
                S3ClientError code \<Rightarrow> (Inl (client_error_handler cfg filename code), w)
              | S3OtherError m \<Rightarrow> (Inl (LibraryError m), w)
              | S3Ok \<Rightarrow>
                  (case put_file local_file (folders w (download_target cfg filename)) of
                     Inl e \<Rightarrow> (Inl e, w)
                   | Inr p \<Rightarrow>
                       (Inr local_file,
                        w\<lparr>folders := (folders w)(download_target cfg filename := p)\<rparr>))))"

text \<open>
  tenacity's \<^verbatim>\<open>wait_exponential(multiplier, min, max)\<close>: the wait after attempt
  \<open>n\<close>, in seconds.
\<close>

definition wait_exponential :: "nat \<Rightarrow> nat \<Rightarrow> nat \<Rightarrow> nat \<Rightarrow> nat" where
  "wait_exponential multiplier mn mx attempt_number =
     max (max 0 mn) (min (multiplier * 2 ^ (attempt_number - 1)) mx)"

text \<open>
  tenacity's \<^verbatim>\<open>@retry\<close>: call \<open>fn\<close>; return its value; on an exception that
  \<open>retry_if\<close> rejects raise it as it is; when \<open>stop\<close> attempts have been made raise
  the last exception itself if \<open>reraise\<close> and \<^verbatim>\<open>RetryError\<close> otherwise; else sleep
  and call again.
\<close>

function retry_call ::
  "nat \<Rightarrow> (nat \<Rightarrow> nat) \<Rightarrow> (exn \<Rightarrow> bool) \<Rightarrow> bool \<Rightarrow> (nat \<Rightarrow> world \<Rightarrow> (exn + 'a) \<times> world)
     \<Rightarrow> nat \<Rightarrow> world \<Rightarrow> (exn + 'a) \<times> world" where
  "retry_call stop wait retry_if reraise fn attempt_number w =
     (case fn attempt_number (w\<lparr>attempts := attempts w + 1\<rparr>) of
        (Inr v, w1) \<Rightarrow> (Inr v, w1)
      | (Inl e, w1) \<Rightarrow>
          if \<not> retry_if e then (Inl e, w1)
          else if stop \<le> attempt_number then
            (if reraise then (Inl e, w1) else (Inl (RetryError e), w1))
          else retry_call stop wait retry_if reraise fn (Suc attempt_number)
                 (w1\<lparr>slept := slept w1 @ [wait attempt_number]\<rparr>))"
  by pat_completeness auto
termination
  by (relation "measure (\<lambda>(stop, wait, retry_if, reraise, fn, attempt_number, w). stop - attempt_number)")
    auto

text \<open>
  The decorator of \<^verbatim>\<open>download_pdf\<close> gives \<^verbatim>\<open>stop_after_attempt(3)\<close> and
  \<^verbatim>\<open>wait_exponential(multiplier=1, min=4, max=10)\<close> and neither \<^verbatim>\<open>retry=\<close> nor
  \<^verbatim>\<open>reraise=\<close>, whose defaults are: retry on every exception, and no reraise.
\<close>

definition download_pdf :: "env \<Rightarrow> RAGConfig \<Rightarrow> string \<Rightarrow> world \<Rightarrow> (exn + string) \<times> world" where
  "download_pdf E cfg filename w =
     retry_call 3 (wait_exponential 1 4 10) (\<lambda>e. True) False (download_pdf_body E cfg filename) 1 w"

section \<open>\<^verbatim>\<open>rag_system.py\<close>\<close>

text \<open>Step 3 of \<^verbatim>\<open>initialize_system\<close>: the list comprehension over the data directory.\<close>

definition scan_pdf_files :: "RAGConfig \<Rightarrow> world \<Rightarrow> exn + string list" where
  "scan_pdf_files cfg w =
     (case os_listdir (DATA_DIR cfg) (folders w (DATA_DIR cfg)) of
        Inl e \<Rightarrow> Inl e
      | Inr names \<Rightarrow>
          Inr (filter (\<lambda>f. os_path_isfile (folders w (DATA_DIR cfg)) f \<and> is_pdf_name f) names))"

text \<open>The branch of step 5 that clears, when forced, and creates the store.\<close>

definition rebuild_vector_store ::
  "env \<Rightarrow> RAGConfig \<Rightarrow> bool \<Rightarrow> document list \<Rightarrow> embeddings \<Rightarrow> world \<Rightarrow> (exn + vstore) \<times> world" where
  "rebuild_vector_store E cfg force_rebuild chunks embeddings w =
     (case (if force_rebuild \<and> os_path_exists (persisted w) then clear_vector_store cfg w
            else (Inr (), w)) of
        (Inl e, w1) \<Rightarrow> (Inl e, w1)
      | (Inr _, w1) \<Rightarrow> create_vector_store E cfg chunks embeddings w1)"

text \<open>Step 5: load unless forced, a failure of the load being swallowed; else rebuild.\<close>

definition load_or_create ::
  "env \<Rightarrow> RAGConfig \<Rightarrow> bool \<Rightarrow> document list \<Rightarrow> embeddings \<Rightarrow> world \<Rightarrow> (exn + vstore) \<times> world" where
  "load_or_create E cfg force_rebuild chunks embeddings w =
     (case (if \<not> force_rebuild then
              (case load_vector_store E cfg embeddings w of
                 (Inl e, w1) \<Rightarrow> (None, w1)
               | (Inr vs, w1) \<Rightarrow> (Some vs, w1))
            else (None, w)) of
        (None, w1) \<Rightarrow> rebuild_vector_store E cfg force_rebuild chunks embeddings w1
      | (Some vs, w1) \<Rightarrow>
          if force_rebuild then rebuild_vector_store E cfg force_rebuild chunks embeddings w1
          else (Inr vs, w1))"

text \<open>
  Steps 1 to 5 of \<^verbatim>\<open>initialize_system\<close> (lines 34 to 88): everything before the
  assignment to \<^verbatim>\<open>self.rag_chain\<close>.
\<close>

definition obtain_vector_store ::
  "env \<Rightarrow> RAGConfig \<Rightarrow> bool \<Rightarrow> string option \<Rightarrow> bool \<Rightarrow> world \<Rightarrow> (exn + vstore) \<times> world" where
  "obtain_vector_store E cfg download_new pdf_filename force_rebuild w =
     (case initialize_embeddings E cfg w of
        (Inl e, w1) \<Rightarrow> (Inl e, w1)
      | (Inr embeddings, w1) \<Rightarrow>
          (case (case pdf_filename of
                   None \<Rightarrow> (Inr [], w1)
                 | Some f \<Rightarrow>
                     if download_new \<and> f \<noteq> [] then download_pdf E cfg f w1
                     else (Inr [], w1)) of
             (Inl e, w2) \<Rightarrow> (Inl e, w2)
           | (Inr pdf_path, w2) \<Rightarrow>
               (case scan_pdf_files cfg w2 of
                  Inl e \<Rightarrow> (Inl e, w2)
                | Inr pdf_files \<Rightarrow>
                    if pdf_files = [] then
                      (Inl (FileNotFoundError (''No PDFs found in '' @ DATA_DIR cfg)), w2)
                    else
                      (case load_and_split_all_pdfs E cfg None w2 of
                         Inl e \<Rightarrow> (Inl e, w2)
                       | Inr chunks \<Rightarrow>
                           if chunks = [] then
                             (Inl (ValueError ''No text chunks generated from PDFs.''), w2)
                           else load_or_create E cfg force_rebuild chunks embeddings w2))))"

text \<open>
  \<^verbatim>\<open>initialize_system\<close>: step 6 assigns the new \<^verbatim>\<open>RAGChain\<close> to
  \<^verbatim>\<open>self.rag_chain\<close> and then builds its chain.
\<close>

definition initialize_system ::
  "env \<Rightarrow> RAGConfig \<Rightarrow> bool \<Rightarrow> string option \<Rightarrow> bool \<Rightarrow> world \<Rightarrow> (exn + rag_chain_obj) \<times> world" where
  "initialize_system E cfg download_new pdf_filename force_rebuild w =
     (case obtain_vector_store E cfg download_new pdf_filename force_rebuild w of
        (Inl e, w1) \<Rightarrow> (Inl e, w1)
      | (Inr vector_store, w1) \<Rightarrow>
          (case build_chain E cfg (RAGChain vector_store) of
             (Inl e, rc) \<Rightarrow> (Inl e, w1\<lparr>rag_chain := Some rc\<rparr>)
           | (Inr c, rc) \<Rightarrow> (Inr rc, w1\<lparr>rag_chain := Some rc\<rparr>)))"

datatype query_result = Answered py_value string | Failed py_value exn

text \<open>
  The loop of \<^verbatim>\<open>run_queries\<close>: an exception of one query becomes an entry. No query
  writes to the persistence directory, so every query of the loop finds it in the state
  \<open>live\<close>.
\<close>

fun run_each ::
  "env \<Rightarrow> RAGConfig \<Rightarrow> collection \<Rightarrow> py_value list \<Rightarrow> rag_chain_obj \<Rightarrow> query_result list
     \<Rightarrow> query_result list \<times> rag_chain_obj" where
  "run_each E cfg live [] rc results = (results, rc)"
| "run_each E cfg live (question # questions) rc results =
     (case query E cfg live question rc of
        (Inr answer, rc1) \<Rightarrow>
          run_each E cfg live questions rc1 (results @ [Answered question answer])
      | (Inl e, rc1) \<Rightarrow> run_each E cfg live questions rc1 (results @ [Failed question e]))"

text \<open>
  \<^verbatim>\<open>run_queries\<close>: \<open>Inr None\<close> is the bare \<^verbatim>\<open>return\<close> (the value \<^verbatim>\<open>None\<close>),
  \<open>Inr (Some results)\<close> the returned list; \<open>Inl\<close> would be an exception raised to
  the caller.
\<close>

definition run_queries ::
  "env \<Rightarrow> RAGConfig \<Rightarrow> py_value list \<Rightarrow> world \<Rightarrow> (exn + query_result list option) \<times> world" where
  "run_queries E cfg questions w =
     (case rag_chain w of
        None \<Rightarrow> (Inr None, w)
      | Some rc \<Rightarrow>
          (case run_each E cfg (persisted w) questions rc [] of
             (results, rc1) \<Rightarrow> (Inr (Some results), w\<lparr>rag_chain := Some rc1\<rparr>)))"

section \<open>The specification's wording, where it differs from the code's check\<close>

text \<open>
  The specification asks for "at least 3 non-whitespace characters after trimming".
  Read by the letter that counts the characters of the trimmed question that are not
  whitespace, which is what these two definitions do; the code measures the length of
  the trimmed question.
\<close>

definition non_whitespace_count :: "string \<Rightarrow> nat" where
  "non_whitespace_count s = length (filter (\<lambda>c. \<not> isspace c) s)"

definition spec_valid_question :: "py_value \<Rightarrow> bool" where
  "spec_valid_question question =
     (case question of
        PyStr s \<Rightarrow> 3 \<le> non_whitespace_count (strip s)
      | _ \<Rightarrow> False)"

section \<open>Concrete instances\<close>

text \<open>The defaults of \<^verbatim>\<open>config.py\<close>.\<close>

definition default_config :: RAGConfig where
  "default_config =
     \<lparr>EMBEDDING_MODEL = ''all-MiniLM-L6-v2'', LLM_MODEL = ''qwen2.5:3b-instruct'',
      CONTEXT_WINDOW = 4096, CHUNK_SIZE = 1000, CHUNK_OVERLAP = 200,
      VECTOR_STORE_DIR = ''chroma_db'', DATA_DIR = ''./data'',
      S3_BUCKET_NAME = ''raggy-1'', AWS_REGION = ''us-east-1''\<rparr>"

definition default_embeddings :: embeddings where
  "default_embeddings = HuggingFaceEmbeddings ''all-MiniLM-L6-v2''"

text \<open>
  Chroma as the library behaves in a process that has not opened the directory before.
  The constructor
  \<^verbatim>\<open>Chroma(persist_directory=..., embedding_function=...)\<close> opens the collection of the
  directory and creates an empty one where there is none (it calls
  \<^verbatim>\<open>get_or_create_collection\<close>), making the directory if it has to;
  \<^verbatim>\<open>Chroma.from_documents\<close> constructs the store in the same way and adds the chunks
  to its collection.
\<close>

definition chroma_get_or_create :: "string \<Rightarrow> embeddings \<Rightarrow> collection \<Rightarrow> (exn + vstore) \<times> collection" where
  "chroma_get_or_create dir emb p =
     (case p of
        Absent \<Rightarrow> (Inr (Chroma dir emb []), Directory [])
      | NotADirectory \<Rightarrow> (Inl (NotADirectoryError dir), NotADirectory)
      | Directory docs \<Rightarrow> (Inr (Chroma dir emb docs), Directory docs))"

definition chroma_add_documents ::
  "document list \<Rightarrow> embeddings \<Rightarrow> string \<Rightarrow> collection \<Rightarrow> (exn + vstore) \<times> collection" where
  "chroma_add_documents chunks emb dir p =
     (case p of
        Absent \<Rightarrow> (Inr (Chroma dir emb chunks), Directory chunks)
      | NotADirectory \<Rightarrow> (Inl (NotADirectoryError dir), NotADirectory)
      | Directory docs \<Rightarrow> (Inr (Chroma dir emb (docs @ chunks)), Directory (docs @ chunks)))"

text \<open>
  A chain answers while the persistence directory holds the collection that its store
  was opened on; once the directory was removed or replaced under the open store, the
  search fails.
\<close>

definition answer_from_disk :: "chain \<Rightarrow> string \<Rightarrow> collection \<Rightarrow> exn + string" where
  "answer_from_disk c q live =
     (case c of
        Chain (Chroma dir emb docs) k t l \<Rightarrow>
          if live = Directory docs then Inr (''Answer to: '' @ q)
          else Inl (LibraryError ''OperationalError''))"

text \<open>
  One instance of the external capabilities, to evaluate the code at concrete inputs.
  Every model loads and the language model answers; the PDF loader fails on
  \<^verbatim>\<open>./data/broken.pdf\<close> and returns one page for any other path; the splitter
  returns the pages as they are; Chroma and the chain are as above; the bucket is empty,
  so \<^verbatim>\<open>head_object\<close> answers 404 at every attempt.
\<close>

definition working_env :: env where
  "working_env =
     \<lparr>hugging_face_embeddings = (\<lambda>m. Inr (HuggingFaceEmbeddings m)),
      chat_ollama = (\<lambda>m n. Inr (ChatOllama m n)),
      chain_invoke = answer_from_disk,
      pdf_loader =
        (\<lambda>path. if path = ''./data/broken.pdf'' then Inl (LibraryError ''PdfReadError'')
                else Inr [\<lparr>page_content = ''text of '' @ path, source = path, page = 0\<rparr>]),
      split_documents = (\<lambda>chunk_size chunk_overlap docs. Inr docs),
      chroma_open = chroma_get_or_create,
      chroma_from_documents = chroma_add_documents,
      chroma_persist = (\<lambda>vs p. (Inr (), p)),
      s3_head_object = (\<lambda>bucket key n. S3ClientError ''404''),
      s3_download_file = (\<lambda>bucket key n. S3Ok)\<rparr>"

text \<open>
  The same with a bucket that holds every key and whose first answer to
  \<^verbatim>\<open>head_object\<close> is a connection fault; and the same with a Chroma that cannot
  write a new index, as it cannot in a process that holds the store open once the
  directory was removed under it.
\<close>

definition flaky_env :: env where
  "flaky_env =
     working_env\<lparr>s3_head_object :=
       (\<lambda>bucket key n. if n < 2 then S3OtherError ''EndpointConnectionError'' else S3Ok)\<rparr>"

definition no_write_env :: env where
  "no_write_env =
     working_env\<lparr>chroma_from_documents :=
       (\<lambda>chunks emb dir p. (Inl (LibraryError ''attempt to write a readonly database''), p))\<rparr>"

text \<open>
  A freshly constructed system: both directories exist and are empty, as
  \<^verbatim>\<open>RAGConfig.__post_init__\<close> leaves them, and no attribute is set.
\<close>

definition fresh_world :: world where
  "fresh_world =
     \<lparr>folders = (\<lambda>path. if path = ''./data'' then Directory [] else Absent),
      persisted = Directory [],
      em_embeddings = None, vsm_vector_store = None, rag_chain = None,
      attempts = 0, slept = []\<rparr>"

text \<open>
  One persisted document, the store that Chroma opens on it, and a fresh system but for
  that document in the persisted index.
\<close>

definition manual :: document where
  "manual = \<lparr>page_content = ''How to reset the device'', source = ''manual.pdf'', page = 1\<rparr>"

definition indexed_store :: vstore where
  "indexed_store = Chroma ''chroma_db'' (HuggingFaceEmbeddings ''all-MiniLM-L6-v2'') [manual]"

definition persisted_world :: world where
  "persisted_world = fresh_world\<lparr>persisted := Directory [manual]\<rparr>"

text \<open>
  A data directory with two readable PDF files, one of them named in upper case, one
  PDF file that the loader cannot parse, a text file and a subdirectory; a fresh system
  on that directory; and the chunks that its PDF files split into.
\<close>

definition mixed_folder :: folder where
  "mixed_folder =
     Directory [(''a.pdf'', RegularFile), (''broken.pdf'', RegularFile), (''notes.txt'', RegularFile),
                (''B.PDF'', RegularFile), (''archive'', SubDirectory)]"

definition mixed_world :: world where
  "mixed_world = fresh_world\<lparr>folders := (\<lambda>path. if path = ''./data'' then mixed_folder else Absent)\<rparr>"

definition mixed_chunks :: "document list" where
  "mixed_chunks =
     [\<lparr>page_content = ''text of ./data/a.pdf'', source = ''a.pdf'', page = 1\<rparr>,
      \<lparr>page_content = ''text of ./data/B.PDF'', source = ''B.PDF'', page = 1\<rparr>]"

text \<open>
  The \<^verbatim>\<open>RAGChain\<close> that step 6 of \<^verbatim>\<open>initialize_system\<close> leaves bound when the
  chain builds: its chain built on the store it was given. A system that is serving has
  the data directory above, one document persisted, and such a chain bound to the index
  of that document.
\<close>

definition loaded_chain :: "vstore \<Rightarrow> llm \<Rightarrow> rag_chain_obj" where
  "loaded_chain vs l = \<lparr>rc_vector_store = vs, rc_chain = Some (Chain vs 3 template l)\<rparr>"

definition ready_world :: world where
  "ready_world =
     mixed_world\<lparr>persisted := Directory [manual],
       rag_chain := Some (loaded_chain indexed_store (ChatOllama ''qwen2.5:3b-instruct'' 4096))\<rparr>"

text \<open>The same system after its data directory was emptied.\<close>

definition emptied_world :: world where
  "emptied_world =
     persisted_world\<lparr>rag_chain :=
       Some (loaded_chain indexed_store (ChatOllama ''qwen2.5:3b-instruct'' 4096))\<rparr>"

section \<open>Evaluation lemmas\<close>

lemmas string_eval = strip_def isspace_def whitespace_def

lemma working_env_sel:
  "hugging_face_embeddings working_env = (\<lambda>m. Inr (HuggingFaceEmbeddings m))"
  "chat_ollama working_env = (\<lambda>m n. Inr (ChatOllama m n))"
  "chain_invoke working_env = answer_from_disk"
  "split_documents working_env = (\<lambda>chunk_size chunk_overlap docs. Inr docs)"
  "chroma_open working_env = chroma_get_or_create"
  "chroma_from_documents working_env = chroma_add_documents"
  "chroma_persist working_env = (\<lambda>vs p. (Inr (), p))"
  "s3_head_object working_env = (\<lambda>bucket key n. S3ClientError ''404'')"
  "s3_download_file working_env = (\<lambda>bucket key n. S3Ok)"
  by (simp_all add: working_env_def)

lemma default_config_sel:
  "EMBEDDING_MODEL default_config = ''all-MiniLM-L6-v2''"
  "LLM_MODEL default_config = ''qwen2.5:3b-instruct''"
  "CONTEXT_WINDOW default_config = 4096"
  "CHUNK_SIZE default_config = 1000"
  "CHUNK_OVERLAP default_config = 200"
  "VECTOR_STORE_DIR default_config = ''chroma_db''"
  "DATA_DIR default_config = ''./data''"
  "S3_BUCKET_NAME default_config = ''raggy-1''"
  by (simp_all add: default_config_def)

section \<open>The question check of \<^verbatim>\<open>RAGChain.query\<close>\<close>

lemma invoke_question_not_rejection:
  assumes "\<forall>c s p. chain_invoke E c s p \<noteq> Inl question_error"
    and "\<forall>m n. chat_ollama E m n \<noteq> Inl question_error"
  shows "fst (invoke_question E cfg live s rc) \<noteq> Inl question_error"
  using assms
  by (auto simp: invoke_question_def invoke_chain_def build_chain_def question_error_def Let_def
      split: option.splits sum.splits prod.splits)

text \<open>
  Claim C4, as the code has it. \<^verbatim>\<open>query\<close> raises the \<^verbatim>\<open>ValueError\<close> of its input
  check if and only if the question is not a string whose length, after leading and
  trailing whitespace is stripped, is at least 3: whitespace inside the question counts
  towards the length. The check agrees with \<^verbatim>\<open>validate_question\<close> of
  \<^verbatim>\<open>utils.py\<close>. The empty question, the question of two spaces and \<^verbatim>\<open>"hi"\<close> are
  rejected, and \<^verbatim>\<open>"valid question"\<close> goes on to the chain. The two hypotheses say
  that the libraries behind the chain do not raise that very \<^verbatim>\<open>ValueError\<close>
  themselves, so that the rejection can be told from a failure of the chain.
\<close>

theorem query_rejects_short_question:
  assumes "\<forall>c s p. chain_invoke E c s p \<noteq> Inl question_error"
    and "\<forall>m n. chat_ollama E m n \<noteq> Inl question_error"
  shows "(fst (query E cfg live question rc) = Inl question_error
           \<longleftrightarrow> \<not> (\<exists>s. question = PyStr s \<and> 3 \<le> length (strip s)))
         \<and> (fst (query E cfg live question rc) = Inl question_error
              \<longleftrightarrow> \<not> validate_question question)
         \<and> query E cfg live (PyStr []) rc = (Inl question_error, rc)
         \<and> query E cfg live (PyStr ''  '') rc = (Inl question_error, rc)
         \<and> query E cfg live (PyStr ''hi'') rc = (Inl question_error, rc)
         \<and> query E cfg live (PyStr ''valid question'') rc
              = invoke_question E cfg live ''valid question'' rc"
proof -
  have a: "fst (query E cfg live question rc) = Inl question_error
           \<longleftrightarrow> \<not> (\<exists>s. question = PyStr s \<and> 3 \<le> length (strip s))"
    using invoke_question_not_rejection [OF assms, of cfg live _ rc]
    by (cases question) (auto simp: query_def)
  have b: "validate_question question \<longleftrightarrow> (\<exists>s. question = PyStr s \<and> 3 \<le> length (strip s))"
    by (cases question) (auto simp: validate_question_def)
  have c: "query E cfg live (PyStr []) rc = (Inl question_error, rc)"
    "query E cfg live (PyStr ''  '') rc = (Inl question_error, rc)"
    "query E cfg live (PyStr ''hi'') rc = (Inl question_error, rc)"
    "query E cfg live (PyStr ''valid question'') rc = invoke_question E cfg live ''valid question'' rc"
    by (simp_all add: query_def string_eval)
  from a b c show ?thesis by simp
qed

theorem query_rejects_short_question_witness:
  "fst (query working_env default_config (Directory [manual]) (PyStr '' ok '') (RAGChain indexed_store))
     = Inl question_error
   \<and> fst (query working_env default_config (Directory [manual]) (PyStr ''why?'') (RAGChain indexed_store))
     \<noteq> Inl question_error
   \<and> fst (query working_env default_config (Directory [manual]) (PyInt 12345) (RAGChain indexed_store))
     = Inl question_error"
proof -
  have h1: "\<forall>c s p. chain_invoke working_env c s p \<noteq> Inl question_error"
    by (simp add: working_env_sel answer_from_disk_def question_error_def
        split: chain.splits vstore.splits)
  have h2: "\<forall>m n. chat_ollama working_env m n \<noteq> Inl question_error"
    by (simp add: working_env_sel)
  show ?thesis
    using query_rejects_short_question [OF h1 h2, where cfg = default_config
        and live = "Directory [manual]" and question = "PyStr '' ok ''" and rc = "RAGChain indexed_store"]
      query_rejects_short_question [OF h1 h2, where cfg = default_config
        and live = "Directory [manual]" and question = "PyStr ''why?''" and rc = "RAGChain indexed_store"]
      query_rejects_short_question [OF h1 h2, where cfg = default_config
        and live = "Directory [manual]" and question = "PyInt 12345" and rc = "RAGChain indexed_store"]
    by (simp add: string_eval)
qed

text \<open>
  The claim as the specification words it fails at \<^verbatim>\<open>"a b"\<close>: the question has two
  characters that are not whitespace, and \<^verbatim>\<open>query\<close> accepts and answers it.
\<close>

theorem query_non_whitespace_count_counterexample:
  "\<not> spec_valid_question (PyStr ''a b'') \<and>
   query working_env default_config (Directory [manual]) (PyStr ''a b'') (RAGChain indexed_store)
     = (Inr ''Answer to: a b'',
        \<lparr>rc_vector_store = indexed_store,
         rc_chain = Some (Chain indexed_store 3 template (ChatOllama ''qwen2.5:3b-instruct'' 4096))\<rparr>)"
  by (simp add: spec_valid_question_def non_whitespace_count_def string_eval query_def
      invoke_question_def invoke_chain_def build_chain_def RAGChain_def working_env_sel
      answer_from_disk_def indexed_store_def default_config_sel Let_def)

section \<open>Lazy building of the chain\<close>

text \<open>
  Claim C9. A valid question put to a \<^verbatim>\<open>RAGChain\<close> whose \<^verbatim>\<open>chain\<close> field is still
  unset does not fail for want of a chain: \<^verbatim>\<open>query\<close> builds the chain first, stores it
  in the field, and returns the answer of that chain. The hypotheses on the libraries
  say that the language model can be constructed and that the chain answers.
\<close>

theorem query_builds_chain_lazily:
  assumes "3 \<le> length (strip s)" and "rc_chain rc = None"
    and "chat_ollama E (LLM_MODEL cfg) (CONTEXT_WINDOW cfg) = Inr l"
    and "chain_invoke E (Chain (rc_vector_store rc) 3 template l) s live = Inr answer"
  shows "query E cfg live (PyStr s) rc =
           (Inr answer, rc\<lparr>rc_chain := Some (Chain (rc_vector_store rc) 3 template l)\<rparr>)"
  using assms
  by (simp add: query_def invoke_question_def invoke_chain_def build_chain_def Let_def)

theorem query_builds_chain_lazily_witness:
  "query working_env default_config (Directory [manual]) (PyStr ''valid question'')
     (RAGChain indexed_store) =
   (Inr ''Answer to: valid question'',
    \<lparr>rc_vector_store = indexed_store,
     rc_chain = Some (Chain indexed_store 3 template (ChatOllama ''qwen2.5:3b-instruct'' 4096))\<rparr>)"
  using query_builds_chain_lazily [where s = "''valid question''" and E = working_env
      and cfg = default_config and rc = "RAGChain indexed_store" and live = "Directory [manual]"
      and l = "ChatOllama ''qwen2.5:3b-instruct'' 4096" and answer = "''Answer to: valid question''"]
  by (simp add: string_eval RAGChain_def working_env_sel default_config_sel answer_from_disk_def
      indexed_store_def)

section \<open>\<^verbatim>\<open>run_queries\<close> on a system that was not initialised\<close>

text \<open>
  Claim C5, as the code has it. When no chain is bound, \<^verbatim>\<open>run_queries\<close> logs an
  error and returns \<^verbatim>\<open>None\<close>: no exception reaches the caller, no query is run and the
  state is as it was.
\<close>

theorem run_queries_without_chain_returns_none:
  "rag_chain w = None \<Longrightarrow> run_queries E cfg questions w = (Inr None, w)"
  by (simp add: run_queries_def)

theorem run_queries_without_chain_returns_none_witness:
  "rag_chain fresh_world = None \<and>
   run_queries flaky_env default_config [PyStr ''hi'', PyInt 3] fresh_world = (Inr None, fresh_world)"
  using run_queries_without_chain_returns_none
    [of fresh_world flaky_env default_config "[PyStr ''hi'', PyInt 3]"]
  by (simp add: fresh_world_def)

text \<open>
  The claim as stated, that the call fails with an error raised to the caller, is false
  on a fresh system: the call returns, and what it returns is \<^verbatim>\<open>None\<close>.
\<close>

theorem run_queries_not_ready_counterexample:
  "run_queries working_env default_config [PyStr ''valid question''] fresh_world
     = (Inr None, fresh_world)"
  by (simp add: run_queries_def fresh_world_def)

section \<open>Clearing the persisted index\<close>

text \<open>
  Claim C7. \<^verbatim>\<open>clear_vector_store\<close> is idempotent: from every state, a second call
  leaves the state of the first and ends as the first did. Where no index is persisted,
  the path being absent or an empty directory, the call changes nothing and raises
  nothing.
\<close>

theorem clear_vector_store_idempotent:
  assumes "persisted w0 = Absent \<or> persisted w0 = Directory []"
  shows "snd (clear_vector_store cfg (snd (clear_vector_store cfg w))) = snd (clear_vector_store cfg w)
       \<and> fst (clear_vector_store cfg (snd (clear_vector_store cfg w))) = fst (clear_vector_store cfg w)
       \<and> clear_vector_store cfg w0 = (Inr (), w0)"
proof -
  have twice: "clear_vector_store cfg (snd (clear_vector_store cfg w)) = clear_vector_store cfg w"
    by (cases "persisted w")
      (simp_all add: clear_vector_store_def os_path_exists_def shutil_rmtree_def os_makedirs_def)
  have "w0\<lparr>persisted := Directory []\<rparr> = w0" if "persisted w0 = Directory []"
    using that by (cases w0) simp
  then have noop: "clear_vector_store cfg w0 = (Inr (), w0)"
    using assms
    by (auto simp: clear_vector_store_def os_path_exists_def shutil_rmtree_def os_makedirs_def)
  from twice noop show ?thesis by simp
qed

theorem clear_vector_store_idempotent_witness:
  "snd (clear_vector_store default_config
          (snd (clear_vector_store default_config (fresh_world\<lparr>persisted := Directory [manual]\<rparr>))))
     = fresh_world
   \<and> clear_vector_store default_config fresh_world = (Inr (), fresh_world)"
  using clear_vector_store_idempotent
    [of fresh_world default_config "fresh_world\<lparr>persisted := Directory [manual]\<rparr>"]
  by (simp add: fresh_world_def clear_vector_store_def os_path_exists_def shutil_rmtree_def
      os_makedirs_def)

text \<open>
  Claim C10, as the code has it. After \<^verbatim>\<open>clear_vector_store\<close> has returned without
  an exception, nothing but the persistence path has changed, and that path is an empty
  directory if it existed before the call (the tree is removed and the directory made
  again) and is still absent if it did not: the \<^verbatim>\<open>os.path.exists\<close> guard skips both
  the removal and the \<^verbatim>\<open>makedirs\<close>.
\<close>

theorem clear_vector_store_postcondition:
  assumes "clear_vector_store cfg w = (Inr (), w')"
  shows "w' = w\<lparr>persisted := (if os_path_exists (persisted w) then Directory [] else Absent)\<rparr>"
  using assms
  by (cases "persisted w")
    (auto simp: clear_vector_store_def os_path_exists_def shutil_rmtree_def os_makedirs_def)

theorem clear_vector_store_postcondition_witness:
  "clear_vector_store default_config (fresh_world\<lparr>persisted := Directory [manual, manual]\<rparr>)
     = (Inr (), fresh_world)
   \<and> fresh_world = fresh_world\<lparr>persisted := Directory []\<rparr>"
  using clear_vector_store_postcondition
    [of default_config "fresh_world\<lparr>persisted := Directory [manual, manual]\<rparr>" fresh_world]
  by (simp add: fresh_world_def clear_vector_store_def os_path_exists_def shutil_rmtree_def
      os_makedirs_def)

text \<open>
  The claim as stated, that the directory always exists afterwards, is false where the
  path was absent: the call succeeds and the path is absent still.
\<close>

theorem clear_vector_store_absent_counterexample:
  "fst (clear_vector_store default_config (fresh_world\<lparr>persisted := Absent\<rparr>)) = Inr ()
   \<and> persisted (snd (clear_vector_store default_config (fresh_world\<lparr>persisted := Absent\<rparr>))) = Absent"
  by (simp add: clear_vector_store_def os_path_exists_def)

section \<open>Splitting every PDF of a directory\<close>

lemma split_each_concat:
  "split_each E cfg d fs acc =
     acc @ concat (map (\<lambda>f. case load_and_split_pdf E cfg (os_path_join d f) of
                              Inl e \<Rightarrow> [] | Inr chunks \<Rightarrow> chunks) fs)"
  by (induction fs arbitrary: acc) (simp_all split: sum.splits)

text \<open>
  Claim C6. For a data folder that is a directory or does not exist,
  \<^verbatim>\<open>load_and_split_all_pdfs\<close> raises nothing and returns, in the order of the
  directory listing, the chunks of every file whose name ends in \<^verbatim>\<open>.pdf\<close> and whose
  processing succeeded; a file whose processing raised contributes nothing and does not
  stop the others. The result is the empty list when the folder does not exist and when
  it lists no such file.
\<close>

theorem load_and_split_all_pdfs_skips_failures:
  assumes "d = (case data_folder of None \<Rightarrow> DATA_DIR cfg | Some p \<Rightarrow> p)"
    and "folders w d \<noteq> NotADirectory"
  shows "load_and_split_all_pdfs E cfg data_folder w =
           Inr (concat (map (\<lambda>f. case load_and_split_pdf E cfg (os_path_join d f) of
                                    Inl e \<Rightarrow> [] | Inr chunks \<Rightarrow> chunks)
                  (case folders w d of
                     Directory entries \<Rightarrow> filter is_pdf_name (map fst entries)
                   | _ \<Rightarrow> [])))
       \<and> (folders w d = Absent \<longrightarrow> load_and_split_all_pdfs E cfg data_folder w = Inr [])
       \<and> ((\<exists>entries. folders w d = Directory entries \<and> filter is_pdf_name (map fst entries) = [])
            \<longrightarrow> load_and_split_all_pdfs E cfg data_folder w = Inr [])"
proof (cases "folders w d")
  case Absent
  with assms(1) show ?thesis
    by (simp add: load_and_split_all_pdfs_def os_path_exists_def)
next
  case NotADirectory
  with assms(2) show ?thesis by simp
next
  case (Directory entries)
  with assms(1) show ?thesis
    by (simp add: load_and_split_all_pdfs_def os_path_exists_def os_listdir_def Let_def
        split_each_concat)
qed

theorem load_and_split_all_pdfs_skips_failures_witness:
  "load_and_split_all_pdfs working_env default_config None mixed_world =
     Inr [\<lparr>page_content = ''text of ./data/a.pdf'', source = ''a.pdf'', page = 1\<rparr>,
          \<lparr>page_content = ''text of ./data/B.PDF'', source = ''B.PDF'', page = 1\<rparr>]
   \<and> load_and_split_all_pdfs working_env default_config (Some ''/missing'') mixed_world = Inr []
   \<and> load_and_split_all_pdfs working_env default_config None fresh_world = Inr []"
proof -
  have names: "is_pdf_name ''a.pdf''" "is_pdf_name ''broken.pdf''" "\<not> is_pdf_name ''notes.txt''"
    "is_pdf_name ''B.PDF''" "\<not> is_pdf_name ''archive''"
    by (simp_all add: is_pdf_name_def endswith_def lower_def lower_char_def)
  have loader: "pdf_loader working_env = (\<lambda>path. if path = ''./data/broken.pdf''
                   then Inl (LibraryError ''PdfReadError'')
                   else Inr [\<lparr>page_content = ''text of '' @ path, source = path, page = 0\<rparr>])"
    by (simp add: working_env_def)
  have files:
    "load_and_split_pdf working_env default_config (os_path_join ''./data'' ''a.pdf'') =
       Inr [\<lparr>page_content = ''text of ./data/a.pdf'', source = ''a.pdf'', page = 1\<rparr>]"
    "load_and_split_pdf working_env default_config (os_path_join ''./data'' ''broken.pdf'') =
       Inl (LibraryError ''PdfReadError'')"
    "load_and_split_pdf working_env default_config (os_path_join ''./data'' ''B.PDF'') =
       Inr [\<lparr>page_content = ''text of ./data/B.PDF'', source = ''B.PDF'', page = 1\<rparr>]"
    by (simp_all add: load_and_split_pdf_def loader working_env_sel os_path_join_def
        os_path_basename_def enumerate_eq_zip)
  have one: "load_and_split_all_pdfs working_env default_config None mixed_world =
     Inr [\<lparr>page_content = ''text of ./data/a.pdf'', source = ''a.pdf'', page = 1\<rparr>,
          \<lparr>page_content = ''text of ./data/B.PDF'', source = ''B.PDF'', page = 1\<rparr>]"
    using load_and_split_all_pdfs_skips_failures
        [where d = "''./data''" and data_folder = None and cfg = default_config and w = mixed_world
          and E = working_env]
    by (simp add: default_config_sel mixed_world_def mixed_folder_def names files)
  have two: "load_and_split_all_pdfs working_env default_config (Some ''/missing'') mixed_world = Inr []"
    using load_and_split_all_pdfs_skips_failures
      [where d = "''/missing''" and data_folder = "Some ''/missing''" and cfg = default_config
          and w = mixed_world and E = working_env]
    by (simp add: mixed_world_def)
  have three: "load_and_split_all_pdfs working_env default_config None fresh_world = Inr []"
    using load_and_split_all_pdfs_skips_failures
      [where d = "''./data''" and data_folder = None and cfg = default_config and w = fresh_world
          and E = working_env]
    by (simp add: default_config_sel fresh_world_def)
  from one two three show ?thesis by simp
qed

section \<open>The bounded retry of \<^verbatim>\<open>download_pdf\<close>\<close>

declare retry_call.simps [simp del]

lemma download_pdf_body_frame:
  "download_pdf_body E cfg f n (w\<lparr>attempts := a\<rparr>) =
     (fst (download_pdf_body E cfg f n w), (snd (download_pdf_body E cfg f n w))\<lparr>attempts := a\<rparr>)"
  "download_pdf_body E cfg f n (w\<lparr>slept := s\<rparr>) =
     (fst (download_pdf_body E cfg f n w), (snd (download_pdf_body E cfg f n w))\<lparr>slept := s\<rparr>)"
  by (simp_all add: download_pdf_body_def Let_def split: s3_outcome.splits sum.splits)

lemma download_pdf_body_failure:
  "isl (fst (download_pdf_body E cfg f n w)) \<Longrightarrow> snd (download_pdf_body E cfg f n w) = w"
  by (auto simp: download_pdf_body_def Let_def split: s3_outcome.splits sum.splits if_splits)

lemma download_pdf_body_success:
  "\<not> isl (fst (download_pdf_body E cfg f n w)) \<Longrightarrow>
     fst (download_pdf_body E cfg f n w) = Inr (os_path_join (DATA_DIR cfg) f)
     \<and> attempts (snd (download_pdf_body E cfg f n w)) = attempts w
     \<and> slept (snd (download_pdf_body E cfg f n w)) = slept w"
  by (auto simp: download_pdf_body_def Let_def split: s3_outcome.splits sum.splits if_splits)

lemma wait_first_two:
  "wait_exponential (Suc 0) 4 10 (Suc 0) = 4" "wait_exponential (Suc 0) 4 10 (Suc (Suc 0)) = 4"
  by (simp_all add: wait_exponential_def)

lemma retry_call_step:
  "retry_call stop wait (\<lambda>e. True) False fn n w =
     (let r = fn n (w\<lparr>attempts := attempts w + 1\<rparr>)
      in if \<not> isl (fst r) then r
         else if stop \<le> n then (Inl (RetryError (projl (fst r))), snd r)
         else retry_call stop wait (\<lambda>e. True) False fn (Suc n) ((snd r)\<lparr>slept := slept (snd r) @ [wait n]\<rparr>))"
  by (subst retry_call.simps) (auto simp: Let_def split: prod.splits sum.splits)

text \<open>
  Claim C3, as the code has it. \<^verbatim>\<open>download_pdf\<close> makes at most 3 attempts. It stops
  at the first attempt that succeeds and returns the local path; after an attempt that
  failed it sleeps 4 seconds, the minimum of the configured wait, and tries again,
  whatever the failure was: the decorator names no exception class, so a missing object
  and a denied access are retried like a network fault. It fails if and only if all 3
  attempts fail, and then after exactly 3 attempts. Below, \<open>fails n\<close> says that the
  \<open>n\<close>-th attempt raises.
\<close>

theorem download_pdf_retries_every_failure:
  "let fails = (\<lambda>n. isl (fst (download_pdf_body E cfg f n w)));
       r = download_pdf E cfg f w;
       made = attempts (snd r) - attempts w
   in made = (if \<not> fails 1 then 1 else if \<not> fails 2 then 2 else 3)
      \<and> (isl (fst r) \<longleftrightarrow> fails 1 \<and> fails 2 \<and> fails 3)
      \<and> (fst r = Inr (os_path_join (DATA_DIR cfg) f) \<longleftrightarrow> \<not> (fails 1 \<and> fails 2 \<and> fails 3))
      \<and> slept (snd r) = slept w @ replicate (made - 1) 4"
proof -
  let ?b = "\<lambda>n. download_pdf_body E cfg f n w"
  show ?thesis
  proof (cases "isl (fst (?b 1))")
    case False
    then show ?thesis
      using download_pdf_body_success [OF False]
      by (simp add: download_pdf_def retry_call_step [where n = "Suc 0"] download_pdf_body_frame Let_def)
  next
    case f1: True
    show ?thesis
    proof (cases "isl (fst (?b 2))")
      case False
      then show ?thesis
        using f1 download_pdf_body_failure [OF f1] download_pdf_body_success [OF False]
        by (simp add: download_pdf_def retry_call_step [where n = "Suc 0"] retry_call_step [where n = "Suc (Suc 0)"]
            download_pdf_body_frame Let_def wait_first_two numeral_2_eq_2)
    next
      case f2: True
      show ?thesis
      proof (cases "isl (fst (?b 3))")
        case False
        then show ?thesis
          using f1 f2 download_pdf_body_failure [OF f1] download_pdf_body_failure [OF f2]
            download_pdf_body_success [OF False]
          by (simp add: download_pdf_def retry_call_step [where n = "Suc 0"] retry_call_step [where n = "Suc (Suc 0)"]
              retry_call_step [where n = "Suc (Suc (Suc 0))"]
              download_pdf_body_frame Let_def wait_first_two numeral_2_eq_2 numeral_3_eq_3)
      next
        case f3: True
        then show ?thesis
          using f1 f2 download_pdf_body_failure [OF f1] download_pdf_body_failure [OF f2]
            download_pdf_body_failure [OF f3]
          by (simp add: download_pdf_def retry_call_step [where n = "Suc 0"] retry_call_step [where n = "Suc (Suc 0)"]
              retry_call_step [where n = "Suc (Suc (Suc 0))"]
              download_pdf_body_frame Let_def wait_first_two numeral_2_eq_2 numeral_3_eq_3)
      qed
    qed
  qed
qed

theorem download_pdf_retries_every_failure_witness:
  "fst (download_pdf flaky_env default_config ''manual.pdf'' fresh_world) = Inr ''./data/manual.pdf''
   \<and> attempts (snd (download_pdf flaky_env default_config ''manual.pdf'' fresh_world)) = 2
   \<and> slept (snd (download_pdf flaky_env default_config ''manual.pdf'' fresh_world)) = [4]"
proof -
  have body:
    "isl (fst (download_pdf_body flaky_env default_config ''manual.pdf'' (Suc 0) fresh_world))"
    "\<not> isl (fst (download_pdf_body flaky_env default_config ''manual.pdf'' 2 fresh_world))"
    by (simp_all add: download_pdf_body_def flaky_env_def working_env_def default_config_sel
        fresh_world_def put_file_def download_target_def os_path_join_def os_path_basename_def
        Let_def)
  have start: "attempts fresh_world = 0" "slept fresh_world = []"
    by (simp_all add: fresh_world_def)
  show ?thesis
    using download_pdf_retries_every_failure [of flaky_env default_config "''manual.pdf''" fresh_world]
    by (simp add: Let_def body start default_config_sel os_path_join_def)
qed

text \<open>
  The claim as stated fails on a missing object. The empty bucket answers 404 at every
  attempt; \<^verbatim>\<open>download_pdf\<close> retries all the same, makes all 3 attempts with two waits,
  and what reaches the caller is tenacity's \<^verbatim>\<open>RetryError\<close> around the
  \<^verbatim>\<open>FileNotFoundError\<close>, not the \<^verbatim>\<open>FileNotFoundError\<close>.
\<close>

theorem download_pdf_not_found_counterexample:
  "download_pdf working_env default_config ''missing.pdf'' fresh_world =
     (Inl (RetryError (FileNotFoundError ''File missing.pdf not found in S3 bucket raggy-1'')),
      fresh_world\<lparr>attempts := 3, slept := [4, 4]\<rparr>)"
  by (simp add: download_pdf_def retry_call_step [where n = "Suc 0"]
      retry_call_step [where n = "Suc (Suc 0)"] retry_call_step [where n = "Suc (Suc (Suc 0))"]
      download_pdf_body_def working_env_sel default_config_sel fresh_world_def Let_def
      wait_first_two numeral_2_eq_2 numeral_3_eq_3)

section \<open>What a failed \<^verbatim>\<open>initialize_system\<close> leaves bound\<close>

text \<open>
  The retry wrapper changes only its two counters besides what the wrapped function
  changes: a part \<open>part\<close> of the state that neither the counters nor the function
  touch is as it was.
\<close>

lemma retry_call_keeps:
  assumes "\<And>w a. part (w\<lparr>attempts := a\<rparr>) = part w"
    and "\<And>w s. part (w\<lparr>slept := s\<rparr>) = part w"
  shows "(\<And>n w. part (snd (fn n w)) = part w) \<Longrightarrow>
     part (snd (retry_call stop wait retry_if reraise fn n w)) = part w"
proof (induction stop wait retry_if reraise fn n w rule: retry_call.induct)
  case (1 stop wait retry_if reraise fn attempt_number w)
  obtain r w1 where call: "fn attempt_number (w\<lparr>attempts := attempts w + 1\<rparr>) = (r, w1)"
    by (cases "fn attempt_number (w\<lparr>attempts := attempts w + 1\<rparr>)")
  have w1: "part w1 = part w"
    using "1.prems" [of attempt_number "w\<lparr>attempts := attempts w + 1\<rparr>"] call assms(1) by simp
  show ?case
  proof (cases r)
    case (Inr v)
    with call w1 show ?thesis by (subst retry_call.simps) simp
  next
    case (Inl e)
    show ?thesis
    proof (cases "retry_if e \<and> \<not> stop \<le> attempt_number")
      case True
      then have "part (snd (retry_call stop wait retry_if reraise fn (Suc attempt_number)
                   (w1\<lparr>slept := slept w1 @ [wait attempt_number]\<rparr>))) = part w1"
        using "1.IH" [OF call [symmetric] Inl] "1.prems" assms(2) by simp
      with call Inl True w1 show ?thesis by (subst retry_call.simps) simp
    next
      case False
      with call Inl w1 show ?thesis by (subst retry_call.simps) auto
    qed
  qed
qed

lemma download_pdf_rag_chain:
  "download_pdf E cfg f w = (r, w1) \<Longrightarrow> rag_chain w1 = rag_chain w"
proof -
  have "rag_chain (snd (download_pdf E cfg f w)) = rag_chain w"
    unfolding download_pdf_def
    by (rule retry_call_keeps)
      (auto simp: download_pdf_body_def Let_def split: s3_outcome.splits sum.splits)
  then show "download_pdf E cfg f w = (r, w1) \<Longrightarrow> rag_chain w1 = rag_chain w" by simp
qed

lemma download_pdf_persisted:
  "download_pdf E cfg f w = (r, w1) \<Longrightarrow> persisted w1 = persisted w"
proof -
  have "persisted (snd (download_pdf E cfg f w)) = persisted w"
    unfolding download_pdf_def
    by (rule retry_call_keeps)
      (auto simp: download_pdf_body_def Let_def split: s3_outcome.splits sum.splits)
  then show "download_pdf E cfg f w = (r, w1) \<Longrightarrow> persisted w1 = persisted w" by simp
qed

lemma initialize_embeddings_rag_chain:
  "initialize_embeddings E cfg w = (r, w1) \<Longrightarrow> rag_chain w1 = rag_chain w"
  by (auto simp: initialize_embeddings_def split: sum.splits)

lemma initialize_embeddings_persisted:
  "initialize_embeddings E cfg w = (r, w1) \<Longrightarrow> persisted w1 = persisted w"
  by (auto simp: initialize_embeddings_def split: sum.splits)

lemma load_vector_store_rag_chain:
  "load_vector_store E cfg emb w = (r, w1) \<Longrightarrow> rag_chain w1 = rag_chain w"
  by (auto simp: load_vector_store_def split: prod.splits sum.splits)

lemma clear_vector_store_rag_chain:
  "clear_vector_store cfg w = (r, w1) \<Longrightarrow> rag_chain w1 = rag_chain w"
  by (auto simp: clear_vector_store_def split: sum.splits if_splits)

lemma create_vector_store_rag_chain:
  "create_vector_store E cfg chunks emb w = (r, w1) \<Longrightarrow> rag_chain w1 = rag_chain w"
  by (auto simp: create_vector_store_def split: prod.splits sum.splits)

lemma rebuild_vector_store_rag_chain:
  "rebuild_vector_store E cfg force chunks emb w = (r, w1) \<Longrightarrow> rag_chain w1 = rag_chain w"
  by (auto simp: rebuild_vector_store_def split: prod.splits sum.splits if_splits
      dest!: clear_vector_store_rag_chain create_vector_store_rag_chain)

lemma load_or_create_rag_chain:
  "load_or_create E cfg force chunks emb w = (r, w1) \<Longrightarrow> rag_chain w1 = rag_chain w"
  by (auto simp: load_or_create_def split: prod.splits sum.splits option.splits if_splits
      dest!: load_vector_store_rag_chain rebuild_vector_store_rag_chain)

lemma obtain_vector_store_rag_chain:
  "obtain_vector_store E cfg download_new pdf_filename force w = (r, w1) \<Longrightarrow>
     rag_chain w1 = rag_chain w"
  by (auto simp: obtain_vector_store_def split: prod.splits sum.splits option.splits if_splits
      dest!: initialize_embeddings_rag_chain download_pdf_rag_chain load_or_create_rag_chain)

text \<open>
  Steps 1 to 4 do not touch the persistence directory: a failure of
  \<^verbatim>\<open>initialize_system\<close> before its chain is constructed either leaves the directory as it
  was or comes out of step 5.
\<close>

lemma obtain_vector_store_persisted:
  "obtain_vector_store E cfg download_new pdf_filename force w = (Inl e, w1) \<Longrightarrow>
     persisted w1 = persisted w
     \<or> (\<exists>chunks emb w2. load_or_create E cfg force chunks emb w2 = (Inl e, w1))"
  by (auto simp: obtain_vector_store_def split: prod.splits sum.splits option.splits if_splits
      dest!: initialize_embeddings_persisted download_pdf_persisted)

lemma run_queries_reads:
  "rag_chain w1 = rag_chain w \<Longrightarrow> persisted w1 = persisted w \<Longrightarrow>
     fst (run_queries E cfg questions w1) = fst (run_queries E cfg questions w)"
  by (simp add: run_queries_def split: option.splits prod.splits)

text \<open>
  Claim C8, as the code has it. When \<^verbatim>\<open>initialize_system\<close> raises in any of its steps
  1 to 5, that is before line 92 assigns the new \<^verbatim>\<open>RAGChain\<close> (loading the
  embeddings, the download, the scan of the data directory, the splitting, loading,
  clearing or creating the vector store), the exception reaches the caller and
  \<^verbatim>\<open>self.rag_chain\<close> holds what it held before: the session that was bound stays bound.
  If the failed call has left the persistence directory as it was, \<^verbatim>\<open>run_queries\<close>
  returns what it returned before the call; and the directory is as it was unless the
  failure came out of step 5, which is where a forced rebuild clears the directory
  before it creates the new store.
\<close>

theorem initialize_failure_keeps_rag_chain:
  assumes "obtain_vector_store E cfg download_new pdf_filename force_rebuild w = (Inl e, w1)"
  shows "initialize_system E cfg download_new pdf_filename force_rebuild w = (Inl e, w1)
       \<and> rag_chain w1 = rag_chain w
       \<and> (persisted w1 = persisted w \<longrightarrow>
            fst (run_queries E cfg questions w1) = fst (run_queries E cfg questions w))
       \<and> (persisted w1 = persisted w
            \<or> (\<exists>chunks emb w2. load_or_create E cfg force_rebuild chunks emb w2 = (Inl e, w1)))"
proof -
  have keep: "rag_chain w1 = rag_chain w"
    using obtain_vector_store_rag_chain [OF assms] .
  have raised: "initialize_system E cfg download_new pdf_filename force_rebuild w = (Inl e, w1)"
    using assms by (simp add: initialize_system_def)
  from keep raised run_queries_reads [OF keep] obtain_vector_store_persisted [OF assms]
  show ?thesis by blast
qed

text \<open>Evaluation of the steps of \<^verbatim>\<open>initialize_system\<close> on the concrete directories.\<close>

lemma pdf_names:
  "is_pdf_name ''a.pdf''" "is_pdf_name ''broken.pdf''" "\<not> is_pdf_name ''notes.txt''"
  "is_pdf_name ''B.PDF''" "\<not> is_pdf_name ''archive''"
  by (simp_all add: is_pdf_name_def endswith_def lower_def lower_char_def)

lemma scan_mixed_folder:
  "folders W ''./data'' = mixed_folder \<Longrightarrow>
     scan_pdf_files default_config W = Inr [''a.pdf'', ''broken.pdf'', ''B.PDF'']"
  by (simp add: scan_pdf_files_def default_config_sel os_listdir_def os_path_isfile_def
      mixed_folder_def pdf_names)

lemma scan_empty_folder:
  "folders W ''./data'' = Directory [] \<Longrightarrow> scan_pdf_files default_config W = Inr []"
  by (simp add: scan_pdf_files_def default_config_sel os_listdir_def)

lemma split_mixed_folder:
  assumes "folders W ''./data'' = mixed_folder"
    and "pdf_loader E = pdf_loader working_env"
    and "split_documents E = split_documents working_env"
  shows "load_and_split_all_pdfs E default_config None W = Inr mixed_chunks"
proof -
  have loader: "pdf_loader E = (\<lambda>path. if path = ''./data/broken.pdf''
                   then Inl (LibraryError ''PdfReadError'')
                   else Inr [\<lparr>page_content = ''text of '' @ path, source = path, page = 0\<rparr>])"
    using assms(2) by (simp add: working_env_def)
  have files:
    "load_and_split_pdf E default_config ''./data/a.pdf'' =
       Inr [\<lparr>page_content = ''text of ./data/a.pdf'', source = ''a.pdf'', page = 1\<rparr>]"
    "load_and_split_pdf E default_config ''./data/broken.pdf'' = Inl (LibraryError ''PdfReadError'')"
    "load_and_split_pdf E default_config ''./data/B.PDF'' =
       Inr [\<lparr>page_content = ''text of ./data/B.PDF'', source = ''B.PDF'', page = 1\<rparr>]"
    by (simp_all add: load_and_split_pdf_def loader assms(3) working_env_sel os_path_basename_def
        enumerate_eq_zip)
  show ?thesis
    using assms(1)
    by (simp add: load_and_split_all_pdfs_def default_config_sel os_path_exists_def os_listdir_def
        mixed_folder_def pdf_names Let_def os_path_join_def files mixed_chunks_def)
qed

lemma embeddings_working:
  "hugging_face_embeddings E = hugging_face_embeddings working_env \<Longrightarrow>
     initialize_embeddings E default_config W = (Inr default_embeddings, W\<lparr>em_embeddings := Some default_embeddings\<rparr>)"
  by (simp add: initialize_embeddings_def working_env_sel default_config_sel default_embeddings_def)

lemma no_write_env_sel:
  "hugging_face_embeddings no_write_env = hugging_face_embeddings working_env"
  "chat_ollama no_write_env = chat_ollama working_env"
  "chain_invoke no_write_env = answer_from_disk"
  "pdf_loader no_write_env = pdf_loader working_env"
  "split_documents no_write_env = split_documents working_env"
  "chroma_from_documents no_write_env =
     (\<lambda>chunks emb dir p. (Inl (LibraryError ''attempt to write a readonly database''), p))"
  "chroma_persist no_write_env = chroma_persist working_env"
  by (simp_all add: no_write_env_def working_env_def)

lemma ready_world_sel:
  "folders ready_world ''./data'' = mixed_folder"
  "persisted ready_world = Directory [manual]"
  "rag_chain ready_world = Some \<lparr>rc_vector_store = indexed_store,
         rc_chain = Some (Chain indexed_store 3 template (ChatOllama ''qwen2.5:3b-instruct'' 4096))\<rparr>"
  by (simp_all add: ready_world_def mixed_world_def loaded_chain_def)

lemma emptied_world_sel:
  "folders emptied_world ''./data'' = Directory []"
  "persisted emptied_world = Directory [manual]"
  "rag_chain emptied_world = Some \<lparr>rc_vector_store = indexed_store,
         rc_chain = Some (Chain indexed_store 3 template (ChatOllama ''qwen2.5:3b-instruct'' 4096))\<rparr>"
  by (simp_all add: emptied_world_def persisted_world_def fresh_world_def loaded_chain_def)

lemma obtain_emptied:
  "obtain_vector_store working_env default_config False None True emptied_world =
     (Inl (FileNotFoundError ''No PDFs found in ./data''),
      emptied_world\<lparr>em_embeddings := Some default_embeddings\<rparr>)"
  by (simp add: obtain_vector_store_def embeddings_working scan_empty_folder emptied_world_sel
      default_config_sel)

lemma obtain_no_write:
  "obtain_vector_store no_write_env default_config False None True ready_world =
     (Inl (LibraryError ''attempt to write a readonly database''),
      ready_world\<lparr>em_embeddings := Some default_embeddings, persisted := Directory []\<rparr>)"
  by (simp add: obtain_vector_store_def embeddings_working no_write_env_sel scan_mixed_folder
      split_mixed_folder ready_world_sel mixed_chunks_def load_or_create_def
      rebuild_vector_store_def clear_vector_store_def os_path_exists_def shutil_rmtree_def
      os_makedirs_def create_vector_store_def default_config_sel)

lemma serving_answers:
  "rag_chain W = Some (loaded_chain indexed_store (ChatOllama ''qwen2.5:3b-instruct'' 4096)) \<Longrightarrow>
   chain_invoke E = answer_from_disk \<Longrightarrow>
     fst (run_queries E default_config [PyStr ''valid question''] W) =
       Inr (Some [if persisted W = Directory [manual]
                  then Answered (PyStr ''valid question'') ''Answer to: valid question''
                  else Failed (PyStr ''valid question'') (LibraryError ''OperationalError'')])"
  by (simp add: run_queries_def query_def string_eval invoke_question_def invoke_chain_def
      loaded_chain_def answer_from_disk_def indexed_store_def)

theorem initialize_failure_keeps_rag_chain_witness:
  "initialize_system working_env default_config False None True emptied_world =
     (Inl (FileNotFoundError ''No PDFs found in ./data''),
      emptied_world\<lparr>em_embeddings := Some default_embeddings\<rparr>)
   \<and> rag_chain (emptied_world\<lparr>em_embeddings := Some default_embeddings\<rparr>)
       = Some (loaded_chain indexed_store (ChatOllama ''qwen2.5:3b-instruct'' 4096))
   \<and> fst (run_queries working_env default_config [PyStr ''valid question'']
            (emptied_world\<lparr>em_embeddings := Some default_embeddings\<rparr>))
       = Inr (Some [Answered (PyStr ''valid question'') ''Answer to: valid question''])"
proof -
  have before: "fst (run_queries working_env default_config [PyStr ''valid question''] emptied_world)
       = Inr (Some [Answered (PyStr ''valid question'') ''Answer to: valid question''])"
    by (simp add: serving_answers emptied_world_sel loaded_chain_def working_env_sel)
  show ?thesis
    using initialize_failure_keeps_rag_chain [OF obtain_emptied, of "[PyStr ''valid question'']"]
      before
    by (simp add: emptied_world_sel loaded_chain_def)
qed

text \<open>
  The claim as stated fails where a forced rebuild raises after it has cleared the
  persistence directory. The session stays bound, but it reads the directory that
  \<^verbatim>\<open>clear_vector_store\<close> has emptied: the question that it answered before the call
  gets an error entry after it.
\<close>

theorem initialize_failure_after_clear_counterexample:
  "initialize_system no_write_env default_config False None True ready_world =
     (Inl (LibraryError ''attempt to write a readonly database''),
      ready_world\<lparr>em_embeddings := Some default_embeddings, persisted := Directory []\<rparr>)
   \<and> rag_chain (ready_world\<lparr>em_embeddings := Some default_embeddings, persisted := Directory []\<rparr>)
       = rag_chain ready_world
   \<and> fst (run_queries no_write_env default_config [PyStr ''valid question''] ready_world)
       = Inr (Some [Answered (PyStr ''valid question'') ''Answer to: valid question''])
   \<and> fst (run_queries no_write_env default_config [PyStr ''valid question'']
            (ready_world\<lparr>em_embeddings := Some default_embeddings, persisted := Directory []\<rparr>))
       = Inr (Some [Failed (PyStr ''valid question'') (LibraryError ''OperationalError'')])"
proof -
  have raised: "initialize_system no_write_env default_config False None True ready_world =
     (Inl (LibraryError ''attempt to write a readonly database''),
      ready_world\<lparr>em_embeddings := Some default_embeddings, persisted := Directory []\<rparr>)"
    by (simp add: initialize_system_def obtain_no_write)
  have bound: "rag_chain ready_world
       = Some (loaded_chain indexed_store (ChatOllama ''qwen2.5:3b-instruct'' 4096))"
    by (simp add: ready_world_sel loaded_chain_def)
  have before: "fst (run_queries no_write_env default_config [PyStr ''valid question''] ready_world)
       = Inr (Some [Answered (PyStr ''valid question'') ''Answer to: valid question''])"
    by (simp add: serving_answers bound no_write_env_sel ready_world_sel)
  have after: "fst (run_queries no_write_env default_config [PyStr ''valid question'']
            (ready_world\<lparr>em_embeddings := Some default_embeddings, persisted := Directory []\<rparr>))
       = Inr (Some [Failed (PyStr ''valid question'') (LibraryError ''OperationalError'')])"
    by (simp add: serving_answers bound no_write_env_sel)
  from raised before after show ?thesis by simp
qed

section \<open>\<^verbatim>\<open>initialize_system\<close> and the documents on disk\<close>

lemma scan_pdf_files_frame [simp]:
  "scan_pdf_files cfg (w\<lparr>em_embeddings := x\<rparr>) = scan_pdf_files cfg w"
  by (simp add: scan_pdf_files_def split: sum.splits)

lemma load_and_split_all_pdfs_frame [simp]:
  "load_and_split_all_pdfs E cfg data_folder (w\<lparr>em_embeddings := x\<rparr>) =
     load_and_split_all_pdfs E cfg data_folder w"
  by (simp add: load_and_split_all_pdfs_def Let_def split: sum.splits)

text \<open>
  Claim C1, as the code has it. Step 3 of \<^verbatim>\<open>initialize_system\<close> comes before any
  look at the persisted index and makes no exception for it: when the data directory
  lists no PDF file, the call raises \<^verbatim>\<open>FileNotFoundError\<close> whatever
  \<^verbatim>\<open>force_rebuild\<close> is and whatever is persisted. With \<^verbatim>\<open>force_rebuild=False\<close>,
  PDF files in the directory and at least one chunk from splitting them, a persisted
  index that Chroma opens is bound as it is: the store is neither cleared nor created
  anew, and the call succeeds once the chain is built. (No download is requested, and
  the embeddings load.)
\<close>

theorem initialize_requires_local_pdfs:
  assumes "hugging_face_embeddings E (EMBEDDING_MODEL cfg) = Inr emb"
  shows "(scan_pdf_files cfg w = Inr [] \<longrightarrow>
            initialize_system E cfg False pdf_filename force_rebuild w =
              (Inl (FileNotFoundError (''No PDFs found in '' @ DATA_DIR cfg)),
               w\<lparr>em_embeddings := Some emb\<rparr>))
       \<and> (scan_pdf_files cfg w = Inr pdf_files \<and> pdf_files \<noteq> []
            \<and> load_and_split_all_pdfs E cfg None w = Inr chunks \<and> chunks \<noteq> []
            \<and> chroma_open E (VECTOR_STORE_DIR cfg) emb (persisted w) = (Inr vs, p)
            \<and> chat_ollama E (LLM_MODEL cfg) (CONTEXT_WINDOW cfg) = Inr l \<longrightarrow>
            initialize_system E cfg False pdf_filename False w =
              (Inr (loaded_chain vs l),
               w\<lparr>em_embeddings := Some emb, persisted := p, vsm_vector_store := Some vs,
                  rag_chain := Some (loaded_chain vs l)\<rparr>))"
  using assms
  by (auto simp: initialize_system_def obtain_vector_store_def initialize_embeddings_def
      load_or_create_def load_vector_store_def build_chain_def RAGChain_def loaded_chain_def Let_def
      split: option.splits)

theorem initialize_requires_local_pdfs_witness:
  "initialize_system working_env default_config False None True persisted_world =
       (Inl (FileNotFoundError ''No PDFs found in ./data''),
        persisted_world\<lparr>em_embeddings := Some default_embeddings\<rparr>)
   \<and> initialize_system working_env default_config False None False ready_world =
       (Inr (loaded_chain indexed_store (ChatOllama ''qwen2.5:3b-instruct'' 4096)),
        ready_world\<lparr>em_embeddings := Some default_embeddings, persisted := Directory [manual],
          vsm_vector_store := Some indexed_store,
          rag_chain := Some (loaded_chain indexed_store (ChatOllama ''qwen2.5:3b-instruct'' 4096))\<rparr>)"
proof -
  have emb: "hugging_face_embeddings working_env (EMBEDDING_MODEL default_config) = Inr default_embeddings"
    by (simp add: working_env_sel default_config_sel default_embeddings_def)
  have a: "scan_pdf_files default_config persisted_world = Inr []"
    by (simp add: scan_empty_folder persisted_world_def fresh_world_def)
  have b: "scan_pdf_files default_config ready_world = Inr [''a.pdf'', ''broken.pdf'', ''B.PDF'']"
    "load_and_split_all_pdfs working_env default_config None ready_world = Inr mixed_chunks"
    "chroma_open working_env (VECTOR_STORE_DIR default_config) default_embeddings (persisted ready_world)
       = (Inr indexed_store, Directory [manual])"
    "chat_ollama working_env (LLM_MODEL default_config) (CONTEXT_WINDOW default_config)
       = Inr (ChatOllama ''qwen2.5:3b-instruct'' 4096)"
    by (simp_all add: scan_mixed_folder split_mixed_folder ready_world_sel working_env_sel
        chroma_get_or_create_def default_config_sel indexed_store_def default_embeddings_def)
  have one: "initialize_system working_env default_config False None True persisted_world =
       (Inl (FileNotFoundError ''No PDFs found in ./data''),
        persisted_world\<lparr>em_embeddings := Some default_embeddings\<rparr>)"
    using initialize_requires_local_pdfs [OF emb, where w = persisted_world and pdf_filename = None
          and force_rebuild = True, THEN conjunct1] a
    by (simp add: default_config_sel)
  have two: "initialize_system working_env default_config False None False ready_world =
       (Inr (loaded_chain indexed_store (ChatOllama ''qwen2.5:3b-instruct'' 4096)),
        ready_world\<lparr>em_embeddings := Some default_embeddings, persisted := Directory [manual],
          vsm_vector_store := Some indexed_store,
          rag_chain := Some (loaded_chain indexed_store (ChatOllama ''qwen2.5:3b-instruct'' 4096))\<rparr>)"
    using initialize_requires_local_pdfs [OF emb, where w = ready_world
          and pdf_files = "[''a.pdf'', ''broken.pdf'', ''B.PDF'']" and chunks = mixed_chunks
          and vs = indexed_store and p = "Directory [manual]"
          and l = "ChatOllama ''qwen2.5:3b-instruct'' 4096" and pdf_filename = None,
          THEN conjunct2] b
    by (simp add: mixed_chunks_def)
  from one two show ?thesis by simp
qed

text \<open>
  The claim as stated fails on an empty data directory: one document is persisted and
  the index loads, \<^verbatim>\<open>force_rebuild\<close> is false, and \<^verbatim>\<open>initialize_system\<close> raises
  \<^verbatim>\<open>FileNotFoundError\<close> all the same.
\<close>

theorem initialize_empty_directory_counterexample:
  "fst (load_vector_store working_env default_config default_embeddings persisted_world)
     = Inr indexed_store
   \<and> initialize_system working_env default_config False None False persisted_world =
       (Inl (FileNotFoundError ''No PDFs found in ./data''),
        persisted_world\<lparr>em_embeddings := Some default_embeddings\<rparr>)"
  by (simp add: load_vector_store_def working_env_sel chroma_get_or_create_def persisted_world_def
      fresh_world_def default_config_sel default_embeddings_def indexed_store_def
      initialize_system_def obtain_vector_store_def embeddings_working scan_empty_folder)

section \<open>Loading where nothing is persisted\<close>

text \<open>
  Claim C2 at the state that \<^verbatim>\<open>clear_vector_store\<close> leaves. \<^verbatim>\<open>load_vector_store\<close>
  makes no check of its own that an index exists: it returns what Chroma's constructor
  returns, and that constructor creates the collection it does not find. So, after a
  clear, the load does not fail: it returns an empty index. For the same reason
  \<^verbatim>\<open>initialize_system\<close> without \<^verbatim>\<open>force_rebuild\<close>, on a system whose data directory
  has PDF files and whose persistence directory is empty, never reaches its
  \<^verbatim>\<open>except\<close> branch ("No existing vector store found ... Creating new one"): it
  binds the empty index and persists no document.
\<close>

theorem load_vector_store_after_clear_returns_empty_index:
  "clear_vector_store default_config persisted_world = (Inr (), fresh_world)
   \<and> load_vector_store working_env default_config default_embeddings fresh_world =
       (Inr (Chroma ''chroma_db'' default_embeddings []),
        fresh_world\<lparr>vsm_vector_store := Some (Chroma ''chroma_db'' default_embeddings [])\<rparr>)
   \<and> initialize_system working_env default_config False None False mixed_world =
       (Inr (loaded_chain (Chroma ''chroma_db'' default_embeddings [])
               (ChatOllama ''qwen2.5:3b-instruct'' 4096)),
        mixed_world\<lparr>em_embeddings := Some default_embeddings, persisted := Directory [],
          vsm_vector_store := Some (Chroma ''chroma_db'' default_embeddings []),
          rag_chain := Some (loaded_chain (Chroma ''chroma_db'' default_embeddings [])
               (ChatOllama ''qwen2.5:3b-instruct'' 4096))\<rparr>)"
proof -
  have a: "clear_vector_store default_config persisted_world = (Inr (), fresh_world)"
    by (simp add: clear_vector_store_def persisted_world_def fresh_world_def os_path_exists_def
        shutil_rmtree_def os_makedirs_def)
  have b: "load_vector_store working_env default_config default_embeddings fresh_world =
       (Inr (Chroma ''chroma_db'' default_embeddings []),
        fresh_world\<lparr>vsm_vector_store := Some (Chroma ''chroma_db'' default_embeddings [])\<rparr>)"
    by (simp add: load_vector_store_def working_env_sel chroma_get_or_create_def fresh_world_def
        default_config_sel)
  have m: "folders mixed_world ''./data'' = mixed_folder" "persisted mixed_world = Directory []"
    by (simp_all add: mixed_world_def fresh_world_def)
  have c: "initialize_system working_env default_config False None False mixed_world =
       (Inr (loaded_chain (Chroma ''chroma_db'' default_embeddings [])
               (ChatOllama ''qwen2.5:3b-instruct'' 4096)),
        mixed_world\<lparr>em_embeddings := Some default_embeddings, persisted := Directory [],
          vsm_vector_store := Some (Chroma ''chroma_db'' default_embeddings []),
          rag_chain := Some (loaded_chain (Chroma ''chroma_db'' default_embeddings [])
               (ChatOllama ''qwen2.5:3b-instruct'' 4096))\<rparr>)"
    by (simp add: initialize_system_def obtain_vector_store_def embeddings_working
        scan_mixed_folder split_mixed_folder m mixed_chunks_def load_or_create_def
        load_vector_store_def working_env_sel chroma_get_or_create_def default_config_sel
        build_chain_def RAGChain_def loaded_chain_def Let_def)
  from a b c show ?thesis by simp
qed

end
